theory Spec2Isabelle
  imports Complex_Main "HOL-Library.AList" "HOL-Library.Char_ord" "HOL-Library.List_Lexorder"
begin

section \<open>Python strings\<close>

text \<open>
  The importer works on Python \<open>str\<close> values. They are modelled as \<open>string\<close>; the
  order on them is the lexicographic order on characters, which is the order Python's
  \<open>sorted\<close> uses. The functions below are the \<open>str\<close> methods and operators that
  \<open>import_fhir_data.py\<close> calls.
\<close>

fun startswith :: "string \<Rightarrow> string \<Rightarrow> bool" where
  "startswith s [] = True"
| "startswith [] (p # ps) = False"
| "startswith (c # cs) (p # ps) = (c = p \<and> startswith cs ps)"

definition endswith :: "string \<Rightarrow> string \<Rightarrow> bool" where
  "endswith s suf = startswith (rev s) (rev suf)"

text \<open>\<open>sub in s\<close> on two strings.\<close>

fun str_in :: "string \<Rightarrow> string \<Rightarrow> bool" where
  "str_in sub [] = (sub = [])"
| "str_in sub (c # cs) = (startswith (c # cs) sub \<or> str_in sub cs)"

text \<open>\<open>s.find(sub)\<close>: the lowest index at which \<open>sub\<close> starts, or \<open>-1\<close>.\<close>

fun str_find :: "string \<Rightarrow> string \<Rightarrow> int" where
  "str_find [] sub = (if sub = [] then 0 else - 1)"
| "str_find (c # cs) sub =
     (if startswith (c # cs) sub then 0
      else (let r = str_find cs sub in if r < 0 then - 1 else r + 1))"

text \<open>\<open>s[:k]\<close>: a negative bound counts from the end.\<close>

definition slice_to :: "string \<Rightarrow> int \<Rightarrow> string" where
  "slice_to s k = (if 0 \<le> k then take (nat k) s else take (nat (int (length s) + k)) s)"

text \<open>
  \<open>s.replace(old, new)\<close> replaces every occurrence of \<open>old\<close>, scanning from the left
  and continuing after each replaced occurrence; an empty \<open>old\<close> matches before every
  character and at the end.
\<close>

function replace_from :: "string \<Rightarrow> string \<Rightarrow> string \<Rightarrow> string" where
  "replace_from [] old new = []"
| "replace_from (c # cs) old new =
     (if old \<noteq> [] \<and> startswith (c # cs) old
      then new @ replace_from (drop (length old) (c # cs)) old new
      else c # replace_from cs old new)"
  by pat_completeness auto
termination
  by (relation "measure (\<lambda>(s, old, new). length s)") auto

definition str_replace :: "string \<Rightarrow> string \<Rightarrow> string \<Rightarrow> string" where
  "str_replace s old new =
     (if old = [] then new @ concat (map (\<lambda>c. c # new) s) else replace_from s old new)"

section \<open>Dataset discovery\<close>

definition BUCKET_BASE :: string where
  "BUCKET_BASE = ''https://storage.googleapis.com/fhir-aggregator-public''"

text \<open>
  An entry of the list returned by \<open>list_ndjson_objects\<close>: the dict
  \<open>{"url": ..., "size": ...}\<close>. The fields carry a prefix because \<open>size\<close> is a constant
  of HOL.
\<close>

record storage_object =
  obj_url :: string
  obj_size :: int

text \<open>
  A value of \<open>dataset_dict\<close>: the dict \<open>{'size': ..., 'objects': ...}\<close>. The size is the
  quotient of an integer by \<open>1024 * 1024\<close>; Python rounds it to the nearest double, the
  model keeps the exact quotient.
\<close>

record dataset_info =
  ds_size :: real
  ds_objects :: "string list"

text \<open>
  Lines 70 to 75 of \<open>discover_datasets\<close>. \<open>sorted(set(xs))\<close> is the sorted list of the
  distinct elements of \<open>xs\<close>, whatever order the set iterates in.
\<close>

definition relative_paths :: "storage_object list \<Rightarrow> string list" where
  "relative_paths objects = map (\<lambda>ob. str_replace (obj_url ob) (BUCKET_BASE @ ''/'') '''') objects"

definition project_name :: "string \<Rightarrow> string" where
  "project_name p = slice_to p (str_find p ''META'' + int (length ''META''))"

definition projects_of :: "storage_object list \<Rightarrow> string list" where
  "projects_of objects = sort (remdups (map project_name (relative_paths objects)))"

text \<open>
  Lines 77 to 84: the loop that fills \<open>dataset_dict\<close>. A Python dict keeps its keys in
  insertion order and an assignment to a key already present keeps the key's place, which
  is what \<open>AList.update\<close> does on an association list.
\<close>

definition project_objects :: "storage_object list \<Rightarrow> string \<Rightarrow> storage_object list" where
  "project_objects objects project = filter (\<lambda>ob. str_in project (obj_url ob)) objects"

definition project_entry :: "storage_object list \<Rightarrow> string \<Rightarrow> dataset_info" where
  "project_entry objects project =
     \<lparr>ds_size = real_of_int (sum_list (map obj_size (project_objects objects project))) / (1024 * 1024),
      ds_objects = map obj_url (project_objects objects project)\<rparr>"

fun fill_dataset_dict ::
  "storage_object list \<Rightarrow> string list \<Rightarrow> (string \<times> dataset_info) list \<Rightarrow> (string \<times> dataset_info) list"
where
  "fill_dataset_dict objects [] dataset_dict = dataset_dict"
| "fill_dataset_dict objects (project # rest) dataset_dict =
     fill_dataset_dict objects rest
       (AList.update project (project_entry objects project) dataset_dict)"

text \<open>The part of \<open>discover_datasets\<close> after the listing: lines 70 to 86.\<close>

definition group_datasets :: "storage_object list \<Rightarrow> (string \<times> dataset_info) list" where
  "group_datasets objects = fill_dataset_dict objects (projects_of objects) []"

text \<open>
  The rule of the specification for a dataset name: the relative path truncated at the
  end of the first occurrence of the marker token. It yields no name when the marker is
  absent. It is compared below with \<open>project_name\<close>, which is what the code computes.
\<close>

fun truncate_at :: "string \<Rightarrow> string \<Rightarrow> string option" where
  "truncate_at marker [] = None"
| "truncate_at marker (c # cs) =
     (if startswith (c # cs) marker then Some marker
      else map_option (Cons c) (truncate_at marker cs))"

section \<open>JSON values and the Python operations on them\<close>

text \<open>
  \<open>response.json()\<close> and \<open>json.loads\<close> return nested dicts, lists, strings, numbers,
  booleans and \<open>None\<close>. A dict is an association list read with \<open>map_of\<close>. The script
  never looks inside a number, so numbers are kept as integers. The operations below
  raise what Python raises when the value has the wrong type.
\<close>

datatype json =
    JNull
  | JBool bool
  | JNum int
  | JStr string
  | JArr "json list"
  | JObj "(string \<times> json) list"

datatype exn =
    AttributeError
  | TypeError
  | KeyError
  | IndexError
  | JSONDecodeError
  | RequestException

text \<open>
  How a call ends when it does not return: \<open>sys.exit(n)\<close> raises \<open>SystemExit\<close>, which
  nothing in the script catches; the other exceptions are subclasses of \<open>Exception\<close>.
\<close>

datatype error = SystemExit int | Raised exn

text \<open>\<open>x.get(key, default)\<close>: only a dict has the method.\<close>

fun py_get :: "json \<Rightarrow> string \<Rightarrow> json \<Rightarrow> exn + json" where
  "py_get (JObj kvs) key dflt = Inr (case map_of kvs key of None \<Rightarrow> dflt | Some v \<Rightarrow> v)"
| "py_get x key dflt = Inl AttributeError"

text \<open>\<open>key in x\<close> for a string \<open>key\<close>.\<close>

fun py_in :: "string \<Rightarrow> json \<Rightarrow> exn + bool" where
  "py_in key (JObj kvs) = Inr (map_of kvs key \<noteq> None)"
| "py_in key (JArr xs) = Inr (List.member xs (JStr key))"
| "py_in key (JStr s) = Inr (str_in key s)"
| "py_in key x = Inl TypeError"

text \<open>\<open>x[key]\<close> for a string \<open>key\<close>.\<close>

fun py_getitem :: "json \<Rightarrow> string \<Rightarrow> exn + json" where
  "py_getitem (JObj kvs) key = (case map_of kvs key of None \<Rightarrow> Inl KeyError | Some v \<Rightarrow> Inr v)"
| "py_getitem x key = Inl TypeError"

text \<open>The elements \<open>for issue in x\<close> runs through.\<close>

fun py_iter :: "json \<Rightarrow> exn + json list" where
  "py_iter (JArr xs) = Inr xs"
| "py_iter (JObj kvs) = Inr (map (\<lambda>kv. JStr (fst kv)) kvs)"
| "py_iter (JStr s) = Inr (map (\<lambda>c. JStr [c]) s)"
| "py_iter x = Inl TypeError"

text \<open>\<open>len(x)\<close>.\<close>

fun py_len :: "json \<Rightarrow> exn + nat" where
  "py_len (JArr xs) = Inr (length xs)"
| "py_len (JObj kvs) = Inr (length kvs)"
| "py_len (JStr s) = Inr (length s)"
| "py_len x = Inl TypeError"

text \<open>\<open>x[0]\<close>.\<close>

fun py_first :: "json \<Rightarrow> exn + json" where
  "py_first (JArr []) = Inl IndexError"
| "py_first (JArr (x # xs)) = Inr x"
| "py_first (JStr []) = Inl IndexError"
| "py_first (JStr (c # cs)) = Inr (JStr [c])"
| "py_first (JObj kvs) = Inl KeyError"
| "py_first x = Inl TypeError"

text \<open>
  \<open>json.loads(x)\<close>: the parser itself is a parameter of the model; a value that is not a
  string is refused before parsing.
\<close>

fun py_loads :: "(string \<Rightarrow> exn + json) \<Rightarrow> json \<Rightarrow> exn + json" where
  "py_loads loads (JStr s) = loads s"
| "py_loads loads x = Inl TypeError"

section \<open>The outside world and what the script does to it\<close>

text \<open>
  An HTTP response as the script reads it: the status code, the two headers it looks at,
  the body as text and the result of \<open>response.json()\<close>.
\<close>

record response =
  status_code :: int
  content_type :: "string option"
  content_location :: "string option"
  resp_text :: string
  resp_json :: "exn + json"

text \<open>
  The answers of the outside world. A request either raises or returns a response.
  \<open>list_ndjson_objects\<close> is what the call \<open>list_ndjson_objects(BUCKET_BASE)\<close> gives:
  the listing, or the exception of a page request that failed. \<open>http_head\<close> and
  \<open>http_post\<close> answer the requests of \<open>submit_import\<close>, the second from the \<open>input\<close>
  entries of the request body. \<open>http_get\<close> gives, for a status URL, the answers to the
  successive polls of it. \<open>json_loads\<close> is the parser \<open>json.loads\<close>.
\<close>

record world =
  list_ndjson_objects :: "exn + storage_object list"
  http_head :: "string \<Rightarrow> exn + response"
  http_post :: "(string \<times> string) list \<Rightarrow> exn + response"
  http_get :: "string \<Rightarrow> (exn + response) list"
  json_loads :: "string \<Rightarrow> exn + json"

text \<open>The lines the script prints, one constructor for each \<open>print\<close> call.\<close>

datatype message =
    MsgDiscovering
  | MsgNoResources string
  | MsgImporting string nat
  | MsgInaccessible string int
  | MsgProbeContentType string string
  | MsgProbeError string exn
  | MsgNoValid string
  | MsgAdding string string
  | MsgSubmitFailed string int
  | MsgSubmitted string string
  | MsgPollContentType string string
  | MsgResponseText string
  | MsgInProgress string json
  | MsgPollStatus string int
  | MsgUnexpectedFormat string
  | MsgResponseData json
  | MsgIssue json json
  | MsgDump json
  | MsgImportFailed string
  | MsgReport string json
  | MsgImportCompleted string
  | MsgAvailable
  | MsgDataset string real

text \<open>What the script does, in order: requests sent, waits, lines printed.\<close>

datatype event =
    HttpHead string
  | HttpPost "(string \<times> string) list"
  | HttpGet string
  | Sleep nat
  | Print message

definition POLL_INTERVAL :: nat where
  "POLL_INTERVAL = 10"

section \<open>Checking the resource URLs\<close>

text \<open>
  Lines 121 to 139 of \<open>submit_import\<close>: one \<open>HEAD\<close> request for each URL, in order. A
  request that raises is caught by \<open>except Exception\<close> and the loop goes on.
\<close>

definition header_or_empty :: "string option \<Rightarrow> string" where
  "header_or_empty h = (case h of None \<Rightarrow> '''' | Some v \<Rightarrow> v)"

fun validate_urls ::
  "(string \<Rightarrow> exn + response) \<Rightarrow> string list \<Rightarrow> string list \<Rightarrow> string list \<times> event list"
where
  "validate_urls head [] valid_urls = (valid_urls, [])"
| "validate_urls head (url # rest) valid_urls =
     (case head url of
        Inl e \<Rightarrow>
          (let (v, tr) = validate_urls head rest valid_urls
           in (v, HttpHead url # Print (MsgProbeError url e) # tr))
      | Inr head_resp \<Rightarrow>
          if status_code head_resp \<noteq> 200 then
            (let (v, tr) = validate_urls head rest valid_urls
             in (v, HttpHead url # Print (MsgInaccessible url (status_code head_resp)) # tr))
          else if \<not> str_in ''json'' (header_or_empty (content_type head_resp)) then
            (let (v, tr) = validate_urls head rest valid_urls
             in (v, HttpHead url
                    # Print (MsgProbeContentType url (header_or_empty (content_type head_resp))) # tr))
          else
            (let (v, tr) = validate_urls head rest (valid_urls @ [url])
             in (v, HttpHead url # tr)))"

section \<open>Polling the import job\<close>

text \<open>
  Lines 226 to 230 of \<open>poll_import_status\<close>: the loop over the issues. It prints one
  line for each issue and keeps in \<open>ok\<close> whether no severity seen so far is
  \<open>"error"\<close>.
\<close>

fun scan_issues :: "json list \<Rightarrow> bool \<Rightarrow> (exn + bool) \<times> event list" where
  "scan_issues [] ok = (Inr ok, [])"
| "scan_issues (issue # rest) ok =
     (case py_get issue ''severity'' (JStr ''unknown'') of
        Inl e \<Rightarrow> (Inl e, [])
      | Inr severity \<Rightarrow>
          (case py_get issue ''details'' (JObj []) of
             Inl e \<Rightarrow> (Inl e, [])
           | Inr d \<Rightarrow>
               (case py_get d ''text'' (JStr '''') of
                  Inl e \<Rightarrow> (Inl e, [])
                | Inr details \<Rightarrow>
                    (let (r, tr) = scan_issues rest (ok \<and> severity \<noteq> JStr ''error'')
                     in (r, Print (MsgIssue severity details) # tr)))))"

text \<open>
  Lines 238 to 242: the test for a single informational issue that carries a report.
  \<open>and\<close> evaluates its right operand only when the left one holds.
\<close>

definition has_report :: "json \<Rightarrow> exn + bool" where
  "has_report issues =
     (case py_len issues of
        Inl e \<Rightarrow> Inl e
      | Inr n \<Rightarrow>
          if n \<noteq> 1 then Inr False
          else
            (case py_first issues of
               Inl e \<Rightarrow> Inl e
             | Inr first \<Rightarrow>
                 (case py_get first ''severity'' JNull of
                    Inl e \<Rightarrow> Inl e
                  | Inr severity \<Rightarrow>
                      if severity \<noteq> JStr ''information'' then Inr False
                      else
                        (case py_get first ''diagnostics'' (JStr '''') of
                           Inl e \<Rightarrow> Inl e
                         | Inr diagnostics \<Rightarrow> py_in ''reportMsg'' diagnostics))))"

text \<open>Line 243: \<open>json.loads(issues[0]["diagnostics"])["reportMsg"]\<close>.\<close>

definition extract_report :: "(string \<Rightarrow> exn + json) \<Rightarrow> json \<Rightarrow> exn + json" where
  "extract_report loads issues =
     (case py_first issues of
        Inl e \<Rightarrow> Inl e
      | Inr first \<Rightarrow>
          (case py_getitem first ''diagnostics'' of
             Inl e \<Rightarrow> Inl e
           | Inr diagnostics \<Rightarrow>
               (case py_loads loads diagnostics of
                  Inl e \<Rightarrow> Inl e
                | Inr parsed \<Rightarrow> py_getitem parsed ''reportMsg'')))"

text \<open>
  Lines 231 to 251: the two branches on \<open>ok\<close>, and the \<open>sys.exit(0)\<close> that follows
  both of them.
\<close>

definition finish_outcome ::
  "(string \<Rightarrow> exn + json) \<Rightarrow> string \<Rightarrow> json \<Rightarrow> json \<Rightarrow> bool \<Rightarrow> error \<times> event list"
where
  "finish_outcome loads dataset_name status_data issues ok =
     (if \<not> ok then
        (SystemExit 0, [Print (MsgDump status_data), Print (MsgImportFailed dataset_name)])
      else
        (case has_report issues of
           Inl e \<Rightarrow> (Raised e, [])
         | Inr True \<Rightarrow>
             (case extract_report loads issues of
                Inl e \<Rightarrow> (Raised e, [])
              | Inr report \<Rightarrow>
                  (SystemExit 0,
                   [Print (MsgReport dataset_name report), Print (MsgImportCompleted dataset_name)]))
         | Inr False \<Rightarrow>
             (SystemExit 0,
              [Print (MsgDump status_data), Print (MsgImportCompleted dataset_name)])))"

text \<open>Lines 216 to 219: the test that the payload is an \<open>OperationOutcome\<close>.\<close>

definition is_operation_outcome :: "json \<Rightarrow> exn + bool" where
  "is_operation_outcome status_data =
     (case py_in ''resourceType'' status_data of
        Inl e \<Rightarrow> Inl e
      | Inr False \<Rightarrow> Inr False
      | Inr True \<Rightarrow>
          (case py_getitem status_data ''resourceType'' of
             Inl e \<Rightarrow> Inl e
           | Inr v \<Rightarrow> Inr (v = JStr ''OperationOutcome'')))"

text \<open>Lines 224 to 251: what is done with a payload that passed the checks before.\<close>

definition handle_outcome ::
  "(string \<Rightarrow> exn + json) \<Rightarrow> string \<Rightarrow> json \<Rightarrow> error \<times> event list"
where
  "handle_outcome loads dataset_name status_data =
     (case py_get status_data ''issue'' (JArr []) of
        Inl e \<Rightarrow> (Raised e, [])
      | Inr issues \<Rightarrow>
          (case py_iter issues of
             Inl e \<Rightarrow> (Raised e, [])
           | Inr items \<Rightarrow>
               (case scan_issues items True of
                  (Inl e, tr) \<Rightarrow> (Raised e, tr)
                | (Inr ok, tr) \<Rightarrow>
                    (let (e, tr') = finish_outcome loads dataset_name status_data issues ok
                     in (e, tr @ tr')))))"

text \<open>
  One pass through the body of the \<open>while True\<close> loop, after the request has been
  answered: either the loop goes round again, or the process ends.
\<close>

datatype step = Continue | Stop error

definition poll_once ::
  "(string \<Rightarrow> exn + json) \<Rightarrow> string \<Rightarrow> exn + response \<Rightarrow> step \<times> event list"
where
  "poll_once loads dataset_name answer =
     (case answer of
        Inl e \<Rightarrow> (Stop (Raised e), [])
      | Inr resp \<Rightarrow>
          if \<not> str_in ''json'' (header_or_empty (content_type resp)) then
            (Stop (SystemExit 1),
             [Print (MsgPollContentType dataset_name (header_or_empty (content_type resp))),
              Print (MsgResponseText (resp_text resp))])
          else
            (case resp_json resp of
               Inl e \<Rightarrow> (Stop (Raised e), [])
             | Inr status_data \<Rightarrow>
                 if status_code resp = 202 then
                   (Continue, [Print (MsgInProgress dataset_name status_data), Sleep POLL_INTERVAL])
                 else if status_code resp \<noteq> 200 then
                   (Stop (SystemExit 1),
                    [Print (MsgPollStatus dataset_name (status_code resp)),
                     Print (MsgResponseText (resp_text resp))])
                 else
                   (case is_operation_outcome status_data of
                      Inl e \<Rightarrow> (Stop (Raised e), [])
                    | Inr False \<Rightarrow>
                        (Stop (SystemExit 1),
                         [Print (MsgUnexpectedFormat dataset_name),
                          Print (MsgResponseData status_data)])
                    | Inr True \<Rightarrow>
                        (let (e, tr) = handle_outcome loads dataset_name status_data
                         in (Stop e, tr)))))"

text \<open>
  \<open>poll_import_status\<close>. The loop has no bound: it runs for as long as the server answers
  202. The model reads the answers from a list; when the list is used up the request has
  been sent and the result is \<open>None\<close>: the loop is still running. The function never
  returns to its caller, so a result is the way the process ended.
\<close>

fun poll_import_status ::
  "(string \<Rightarrow> exn + json) \<Rightarrow> string \<Rightarrow> string \<Rightarrow> (exn + response) list
   \<Rightarrow> error option \<times> event list"
where
  "poll_import_status loads dataset_name status_url [] = (None, [HttpGet status_url])"
| "poll_import_status loads dataset_name status_url (answer # answers) =
     (case poll_once loads dataset_name answer of
        (Continue, tr) \<Rightarrow>
          (let (r, tr') = poll_import_status loads dataset_name status_url answers
           in (r, HttpGet status_url # tr @ tr'))
      | (Stop e, tr) \<Rightarrow> (Some e, HttpGet status_url # tr))"

section \<open>Submitting an import\<close>

text \<open>\<open>url.split("/")[-1].replace(".ndjson", "")\<close>.\<close>

definition resource_type :: "string \<Rightarrow> string" where
  "resource_type url =
     str_replace (rev (takeWhile (\<lambda>c. c \<noteq> CHR ''/'') (rev url))) ''.ndjson'' ''''"

text \<open>
  \<open>submit_import\<close>. The request body is fixed apart from its \<open>input\<close> entries, so a
  \<open>POST\<close> is recorded with the list of their (type, URL) pairs. The result is \<open>None\<close>
  while the poll loop is still running, \<open>Some (Inr ())\<close> when the function returns and
  \<open>Some (Inl e)\<close> when the process ends in it.
\<close>

definition submit_import ::
  "world \<Rightarrow> string \<Rightarrow> string list \<Rightarrow> (error + unit) option \<times> event list"
where
  "submit_import w dataset_name urls =
     (let resource_urls = filter (\<lambda>url. endswith url ''.ndjson'') urls in
      if resource_urls = [] then (Some (Inr ()), [Print (MsgNoResources dataset_name)])
      else
        (let (valid_urls, tr1) = validate_urls (http_head w) resource_urls [];
             started = Print (MsgImporting dataset_name (length resource_urls)) # tr1
         in
           if valid_urls = [] then (Some (Inr ()), started @ [Print (MsgNoValid dataset_name)])
           else
             (let inputs = map (\<lambda>url. (resource_type url, url)) valid_urls;
                  built = started @ map (\<lambda>url. Print (MsgAdding (resource_type url) url)) valid_urls
              in
                case http_post w inputs of
                  Inl e \<Rightarrow> (Some (Inl (Raised e)), built @ [HttpPost inputs])
                | Inr resp \<Rightarrow>
                    (case content_location resp of
                       None \<Rightarrow>
                         (Some (Inl (SystemExit 1)),
                          built @ [HttpPost inputs,
                                   Print (MsgSubmitFailed dataset_name (status_code resp)),
                                   Print (MsgResponseText (resp_text resp))])
                     | Some status_url \<Rightarrow>
                         (let (r, tr3) = poll_import_status (json_loads w) dataset_name status_url
                                           (http_get w status_url)
                          in (map_option Inl r,
                              built @ [HttpPost inputs, Print (MsgSubmitted dataset_name status_url)]
                                @ tr3))))))"

section \<open>The command line\<close>

datatype command = CmdImport | CmdList

record args =
  command :: command
  only :: "string option"
  skip_legacy :: bool

definition discover_datasets :: "world \<Rightarrow> (error + (string \<times> dataset_info) list) \<times> event list" where
  "discover_datasets w =
     (case list_ndjson_objects w of
        Inl e \<Rightarrow> (Inl (Raised e), [Print MsgDiscovering])
      | Inr objects \<Rightarrow> (Inr (group_datasets objects), [Print MsgDiscovering]))"

text \<open>
  The two filters of lines 291 to 294. \<open>args.only\<close> counts as set when it is a non-empty
  string.
\<close>

definition selected :: "args \<Rightarrow> string \<Rightarrow> bool" where
  "selected a dataset =
     (\<not> (skip_legacy a \<and> startswith dataset ''R4'') \<and>
      \<not> (case only a of None \<Rightarrow> False | Some kw \<Rightarrow> kw \<noteq> [] \<and> \<not> str_in kw dataset))"

text \<open>Lines 289 to 295: the loop over \<open>datasets.items()\<close>.\<close>

fun import_loop ::
  "world \<Rightarrow> args \<Rightarrow> (string \<times> dataset_info) list \<Rightarrow> (error + unit) option \<times> event list"
where
  "import_loop w a [] = (Some (Inr ()), [])"
| "import_loop w a ((dataset, dataset_info) # rest) =
     (if \<not> selected a dataset then import_loop w a rest
      else
        (case submit_import w dataset (ds_objects dataset_info) of
           (Some (Inr u), tr) \<Rightarrow>
             (let (r, tr') = import_loop w a rest in (r, tr @ tr'))
         | (r, tr) \<Rightarrow> (r, tr)))"

definition main :: "world \<Rightarrow> args \<Rightarrow> (error + unit) option \<times> event list" where
  "main w a =
     (case discover_datasets w of
        (Inl e, tr) \<Rightarrow> (Some (Inl e), tr)
      | (Inr datasets, tr) \<Rightarrow>
          (case command a of
             CmdList \<Rightarrow>
               (Some (Inr ()),
                tr @ Print MsgAvailable
                     # map (\<lambda>kv. Print (MsgDataset (fst kv) (ds_size (snd kv)))) datasets)
           | CmdImport \<Rightarrow>
               (let (r, tr') = import_loop w a datasets in (r, tr @ tr'))))"

text \<open>
  The exit status of the process: 0 when \<open>main\<close> returns, the argument of \<open>sys.exit\<close>,
  and 1 when an exception reaches the top.
\<close>

fun exit_status :: "error + unit \<Rightarrow> int" where
  "exit_status (Inr u) = 0"
| "exit_status (Inl (SystemExit n)) = n"
| "exit_status (Inl (Raised e)) = 1"

section \<open>Vocabulary of the properties\<close>

text \<open>
  The requests found in a trace.
\<close>

fun probed :: "event list \<Rightarrow> string list" where
  "probed [] = []"
| "probed (HttpHead url # tr) = url # probed tr"
| "probed (e # tr) = probed tr"

fun posted :: "event list \<Rightarrow> (string \<times> string) list list" where
  "posted [] = []"
| "posted (HttpPost inputs # tr) = inputs # posted tr"
| "posted (e # tr) = posted tr"

fun polled :: "event list \<Rightarrow> string list" where
  "polled [] = []"
| "polled (HttpGet url # tr) = url # polled tr"
| "polled (e # tr) = polled tr"

text \<open>
  A probe passes when the request connected, the status is 200 and the content type
  names JSON.
\<close>

definition probe_passes :: "exn + response \<Rightarrow> bool" where
  "probe_passes answer =
     (case answer of
        Inl e \<Rightarrow> False
      | Inr resp \<Rightarrow> status_code resp = 200 \<and> str_in ''json'' (header_or_empty (content_type resp)))"

text \<open>
  An answer that keeps the poller waiting: status 202, a JSON content type and a body
  that parses.
\<close>

definition in_progress :: "exn + response \<Rightarrow> bool" where
  "in_progress answer =
     (case answer of
        Inl e \<Rightarrow> False
      | Inr resp \<Rightarrow>
          status_code resp = 202 \<and> str_in ''json'' (header_or_empty (content_type resp)) \<and>
          (case resp_json resp of Inl e \<Rightarrow> False | Inr v \<Rightarrow> True))"

text \<open>
  A terminal answer with an \<open>OperationOutcome\<close>: status 200, a JSON content type, and a
  body that is an object \<open>kvs\<close> whose \<open>resourceType\<close> is \<open>"OperationOutcome"\<close> and whose
  \<open>issue\<close> member, taken as empty when absent, is the array \<open>issues\<close>.
\<close>

definition terminal_outcome :: "response \<Rightarrow> (string \<times> json) list \<Rightarrow> json list \<Rightarrow> bool" where
  "terminal_outcome resp kvs issues =
     (status_code resp = 200 \<and> str_in ''json'' (header_or_empty (content_type resp)) \<and>
      resp_json resp = Inr (JObj kvs) \<and>
      map_of kvs ''resourceType'' = Some (JStr ''OperationOutcome'') \<and>
      (case map_of kvs ''issue'' of None \<Rightarrow> JArr [] | Some v \<Rightarrow> v) = JArr issues)"

text \<open>
  An issue as FHIR shapes it: an object whose \<open>details\<close>, when present, is an object
  (a CodeableConcept, whose \<open>text\<close> the poller prints).
\<close>

fun plain_issue :: "json \<Rightarrow> bool" where
  "plain_issue (JObj kvs) =
     (case map_of kvs ''details'' of None \<Rightarrow> True | Some (JObj d) \<Rightarrow> True | Some v \<Rightarrow> False)"
| "plain_issue x = False"

fun severity_field :: "json \<Rightarrow> json option" where
  "severity_field (JObj kvs) = map_of kvs ''severity''"
| "severity_field x = None"

definition is_error :: "json \<Rightarrow> bool" where
  "is_error issue = (severity_field issue = Some (JStr ''error''))"

definition below_error :: "json \<Rightarrow> bool" where
  "below_error issue =
     (severity_field issue = Some (JStr ''information'') \<or>
      severity_field issue = Some (JStr ''warning''))"

definition known_severity :: "json \<Rightarrow> bool" where
  "known_severity issue = (below_error issue \<or> is_error issue)"

text \<open>The text of an issue's \<open>details\<close>, empty when there is none.\<close>

fun details_text :: "json \<Rightarrow> json" where
  "details_text (JObj kvs) =
     (case map_of kvs ''details'' of
        Some (JObj d) \<Rightarrow> (case map_of d ''text'' of None \<Rightarrow> JStr '''' | Some t \<Rightarrow> t)
      | other \<Rightarrow> JStr '''')"
| "details_text x = JStr ''''"

text \<open>The line printed for an issue: its severity, \<open>"unknown"\<close> when it has none.\<close>

definition issue_line :: "json \<Rightarrow> event" where
  "issue_line issue =
     Print (MsgIssue (case severity_field issue of None \<Rightarrow> JStr ''unknown'' | Some v \<Rightarrow> v)
                     (details_text issue))"

text \<open>
  The embedded report is there when the poller looks for one. The poller looks for one
  in a single informational issue whose \<open>diagnostics\<close> text mentions \<open>reportMsg\<close>; it is
  there when that text parses to an object with the member \<open>reportMsg\<close>. A
  \<open>diagnostics\<close> is a string when present.
\<close>

fun report_ready :: "(string \<Rightarrow> exn + json) \<Rightarrow> json list \<Rightarrow> bool" where
  "report_ready loads [JObj kvs] =
     (if map_of kvs ''severity'' = Some (JStr ''information'') then
        (case map_of kvs ''diagnostics'' of
           None \<Rightarrow> True
         | Some (JStr s) \<Rightarrow>
             (if str_in ''reportMsg'' s then
                (case loads s of
                   Inr (JObj r) \<Rightarrow> map_of r ''reportMsg'' \<noteq> None
                 | other \<Rightarrow> False)
              else True)
         | Some v \<Rightarrow> False)
      else True)"
| "report_ready loads issues = True"

section \<open>Scenarios\<close>

text \<open>The listing of the grouping scenario of the specification.\<close>

definition scenario_objects :: "storage_object list" where
  "scenario_objects =
     [\<lparr>obj_url = BUCKET_BASE @ ''/A-META-1.ndjson'', obj_size = 104857600\<rparr>,
      \<lparr>obj_url = BUCKET_BASE @ ''/A-META-2.ndjson'', obj_size = 52428800\<rparr>,
      \<lparr>obj_url = BUCKET_BASE @ ''/B-META-1.ndjson'', obj_size = 10485760\<rparr>]"

text \<open>A listing with one object whose path lacks the marker.\<close>

definition stray_objects :: "storage_object list" where
  "stray_objects = [\<lparr>obj_url = BUCKET_BASE @ ''/foo/bar.ndjson'', obj_size = 1\<rparr>]"

definition issue_with :: "string \<Rightarrow> json" where
  "issue_with severity = JObj [(''severity'', JStr severity)]"

definition outcome_with :: "json list \<Rightarrow> json" where
  "outcome_with issues = JObj [(''resourceType'', JStr ''OperationOutcome''), (''issue'', JArr issues)]"

definition json_response :: "int \<Rightarrow> string option \<Rightarrow> json \<Rightarrow> response" where
  "json_response code location payload =
     \<lparr>status_code = code, content_type = Some ''application/fhir+json'',
      content_location = location, resp_text = '''', resp_json = Inr payload\<rparr>"

text \<open>
  A world with two datasets of one file each. Every probe passes, every submission is
  accepted with the status location \<open>job\<close>, and the first poll of it is answered with a
  terminal \<open>OperationOutcome\<close> carrying the given issues.
\<close>

definition two_datasets :: "storage_object list" where
  "two_datasets =
     [\<lparr>obj_url = BUCKET_BASE @ ''/A-META/Patient.ndjson'', obj_size = 1\<rparr>,
      \<lparr>obj_url = BUCKET_BASE @ ''/B-META/Patient.ndjson'', obj_size = 1\<rparr>]"

definition demo_world :: "json list \<Rightarrow> world" where
  "demo_world issues =
     \<lparr>list_ndjson_objects = Inr two_datasets,
      http_head = (\<lambda>url. Inr (json_response 200 None JNull)),
      http_post = (\<lambda>inputs. Inr (json_response 202 (Some ''job'') JNull)),
      http_get = (\<lambda>url. [Inr (json_response 200 None (outcome_with issues))]),
      json_loads = (\<lambda>s. Inl JSONDecodeError)\<rparr>"

definition import_all :: args where
  "import_all = \<lparr>command = CmdImport, only = None, skip_legacy = False\<rparr>"

text \<open>The same world, except that the server answers a submission without a status location.\<close>

definition rejecting_world :: world where
  "rejecting_world = (demo_world [])\<lparr>http_post := (\<lambda>inputs. Inr (json_response 400 None JNull))\<rparr>"

text \<open>
  The polling scenarios: two answers that the job is in progress, then a terminal
  payload with a single informational issue. The \<open>diagnostics\<close> of \<open>report_issue\<close> is the
  JSON text of a report; the \<open>diagnostics\<close> of \<open>unparsed_issue\<close> mentions \<open>reportMsg\<close> and
  is not JSON. \<open>report_parser\<close> is \<open>json.loads\<close> on these two texts: it reads the first
  and raises \<open>JSONDecodeError\<close> on the second; no other text is given to it below.
\<close>

definition report_text :: string where
  \<open>report_text = ''{"reportMsg": "done"}''\<close>

definition report_issue :: json where
  "report_issue = JObj [(''severity'', JStr ''information''), (''diagnostics'', JStr report_text)]"

definition unparsed_issue :: json where
  "unparsed_issue =
     JObj [(''severity'', JStr ''information''), (''diagnostics'', JStr ''reportMsg: done'')]"

definition report_parser :: "string \<Rightarrow> exn + json" where
  "report_parser s =
     (if s = report_text then Inr (JObj [(''reportMsg'', JStr ''done'')]) else Inl JSONDecodeError)"

definition two_pending :: "(exn + response) list" where
  "two_pending = [Inr (json_response 202 None JNull), Inr (json_response 202 None JNull)]"

text \<open>A listing in which one path has the marker and one has not.\<close>

definition mixed_objects :: "storage_object list" where
  "mixed_objects =
     [\<lparr>obj_url = BUCKET_BASE @ ''/A-META/Patient.ndjson'', obj_size = 1\<rparr>,
      \<lparr>obj_url = BUCKET_BASE @ ''/readme.ndjson'', obj_size = 1\<rparr>]"

section \<open>Strings: facts\<close>

lemma startswith_iff: "startswith s p \<longleftrightarrow> take (length p) s = p \<and> length p \<le> length s"
  by (induction s p rule: startswith.induct) auto

lemma str_find_ge: "- 1 \<le> str_find s sub"
  by (induction s) (auto simp: Let_def)

lemma str_find_neg: "str_find s sub < 0 \<longleftrightarrow> \<not> str_in sub s"
proof (induction s)
  case Nil
  then show ?case by simp
next
  case (Cons c cs)
  then show ?case using str_find_ge[of cs sub] by (auto simp: Let_def)
qed

lemma str_find_absent: "\<not> str_in sub s \<Longrightarrow> str_find s sub = - 1"
  using str_find_neg[of s sub] str_find_ge[of s sub] by simp

text \<open>
  Where the marker occurs, the slice the code takes is the path truncated at the end of
  the first occurrence.
\<close>

lemma str_find_truncate:
  "truncate_at m p = Some q \<Longrightarrow>
   q = take (nat (str_find p m + int (length m))) p \<and> 0 \<le> str_find p m"
proof (induction p arbitrary: q)
  case Nil
  then show ?case by simp
next
  case (Cons c cs)
  show ?case
  proof (cases "startswith (c # cs) m")
    case True
    with Cons.prems show ?thesis by (auto simp: startswith_iff)
  next
    case False
    with Cons.prems obtain q' where q': "truncate_at m cs = Some q'" "q = c # q'"
      by auto
    from Cons.IH[OF q'(1)]
    have ih: "q' = take (nat (str_find cs m + int (length m))) cs" "0 \<le> str_find cs m"
      by auto
    have "nat (str_find cs m + 1 + int (length m)) = Suc (nat (str_find cs m + int (length m)))"
      using ih(2) by simp
    then show ?thesis using False q' ih by (simp add: Let_def)
  qed
qed

lemma truncate_None: "m \<noteq> [] \<Longrightarrow> truncate_at m p = None \<longleftrightarrow> \<not> str_in m p"
  by (induction p) auto

lemma project_name_truncate: "truncate_at ''META'' p = Some q \<Longrightarrow> project_name p = q"
  using str_find_truncate[of "''META''" p q] by (simp add: project_name_def slice_to_def)

lemma project_name_marked: "str_in ''META'' p \<Longrightarrow> truncate_at ''META'' p = Some (project_name p)"
proof -
  assume "str_in ''META'' p"
  then have "truncate_at ''META'' p \<noteq> None"
    using truncate_None[of "''META''" p] by simp
  then obtain q where "truncate_at ''META'' p = Some q" by blast
  then show ?thesis using project_name_truncate by simp
qed

text \<open>Where the marker is absent, \<open>find\<close> gives \<open>-1\<close> and the slice is \<open>p[:3]\<close>.\<close>

lemma project_name_absent: "\<not> str_in ''META'' p \<Longrightarrow> project_name p = take 3 p"
  by (simp add: project_name_def slice_to_def str_find_absent)

section \<open>Dataset discovery: facts\<close>

lemma fill_keys:
  "distinct ps \<Longrightarrow> set ps \<inter> fst ` set d = {} \<Longrightarrow>
   map fst (fill_dataset_dict objects ps d) = map fst d @ ps"
proof (induction ps arbitrary: d)
  case Nil
  then show ?case by simp
next
  case (Cons p ps)
  have k: "map fst (AList.update p (project_entry objects p) d) = map fst d @ [p]"
    using Cons.prems by (simp add: update_keys)
  have "set ps \<inter> set (map fst (AList.update p (project_entry objects p) d)) = {}"
    unfolding k using Cons.prems by auto
  then have "set ps \<inter> fst ` set (AList.update p (project_entry objects p) d) = {}"
    by simp
  with Cons have "map fst (fill_dataset_dict objects ps (AList.update p (project_entry objects p) d))
    = map fst (AList.update p (project_entry objects p) d) @ ps" by simp
  then show ?case using k by simp
qed

lemma fill_lookup:
  "map_of (fill_dataset_dict objects ps d) k =
     (if k \<in> set ps then Some (project_entry objects k) else map_of d k)"
  by (induction ps arbitrary: d) (auto simp: update_conv')

lemma group_keys: "map fst (group_datasets objects) = projects_of objects"
  by (simp add: group_datasets_def fill_keys projects_of_def)

lemma group_lookup:
  assumes "(name, info) \<in> set (group_datasets objects)"
  shows "info = project_entry objects name"
proof -
  have "distinct (map fst (group_datasets objects))"
    by (simp add: group_keys projects_of_def)
  with assms have "map_of (group_datasets objects) name = Some info"
    by simp
  then show ?thesis
    by (simp add: group_datasets_def fill_lookup split: if_splits)
qed

lemma scenario_paths:
  "relative_paths scenario_objects = [''A-META-1.ndjson'', ''A-META-2.ndjson'', ''B-META-1.ndjson'']"
  by (simp add: relative_paths_def scenario_objects_def BUCKET_BASE_def str_replace_def)

lemma scenario_names:
  "project_name ''A-META-1.ndjson'' = ''A-META''"
  "project_name ''A-META-2.ndjson'' = ''A-META''"
  "project_name ''B-META-1.ndjson'' = ''B-META''"
  by (simp_all add: project_name_def slice_to_def)

lemma scenario_projects: "projects_of scenario_objects = [''A-META'', ''B-META'']"
  unfolding projects_of_def scenario_paths by (simp add: scenario_names)

lemma scenario_groups:
  "group_datasets scenario_objects =
     [(''A-META'', \<lparr>ds_size = 150,
         ds_objects = [BUCKET_BASE @ ''/A-META-1.ndjson'', BUCKET_BASE @ ''/A-META-2.ndjson'']\<rparr>),
      (''B-META'', \<lparr>ds_size = 10, ds_objects = [BUCKET_BASE @ ''/B-META-1.ndjson'']\<rparr>)]"
  unfolding group_datasets_def scenario_projects
  by (simp add: project_entry_def project_objects_def scenario_objects_def BUCKET_BASE_def)

text \<open>
  The keys of the mapping that the grouper returns, in the order the mapping enumerates
  them, are sorted lexicographically and without repetition, and they are the names that
  \<open>project_name\<close> derives from the relative paths. For a path that contains the marker
  that name is the path truncated at the end of the marker.
\<close>

lemma grouper_keys_sorted_distinct:
  "sorted (map fst (group_datasets objects)) \<and>
   distinct (map fst (group_datasets objects)) \<and>
   set (map fst (group_datasets objects)) = project_name ` set (relative_paths objects) \<and>
   (\<forall>p \<in> set (relative_paths objects).
      str_in ''META'' p \<longrightarrow> truncate_at ''META'' p = Some (project_name p))"
  by (simp add: group_keys projects_of_def project_name_marked)

text \<open>
  C7. The listing holds \<open>A-META/Patient.ndjson\<close> and \<open>readme.ndjson\<close>. Truncating the
  relative paths at the end of the marker gives the one name \<open>A-META\<close>, and nothing for
  the second path, which has no marker. The keys of the result are \<open>A-META\<close> and \<open>rea\<close>:
  the second key is the first three characters of the marker-less path, not a path
  truncated at the marker.
\<close>

theorem unmarked_path_adds_a_key:
  "relative_paths mixed_objects = [''A-META/Patient.ndjson'', ''readme.ndjson''] \<and>
   truncate_at ''META'' ''A-META/Patient.ndjson'' = Some ''A-META'' \<and>
   truncate_at ''META'' ''readme.ndjson'' = None \<and>
   map fst (group_datasets mixed_objects) = [''A-META'', ''rea'']"
  by code_simp

text \<open>
  C9. The size recorded for a dataset is the sum of the byte sizes of the listed objects
  whose URL contains the dataset's name, divided by \<open>1024 * 1024\<close>. The quotient is
  exact here; Python rounds it to a double.
\<close>

theorem dataset_size_in_megabytes:
  "(name, info) \<in> set (group_datasets objects) \<Longrightarrow>
   ds_size info =
     real_of_int (sum_list (map obj_size (filter (\<lambda>ob. str_in name (obj_url ob)) objects)))
       / (1024 * 1024)"
  using group_lookup[of name info objects]
  by (simp add: project_entry_def project_objects_def)

theorem dataset_size_in_megabytes_witness:
  "(''A-META'', \<lparr>ds_size = 150,
       ds_objects = [BUCKET_BASE @ ''/A-META-1.ndjson'', BUCKET_BASE @ ''/A-META-2.ndjson'']\<rparr>)
     \<in> set (group_datasets scenario_objects) \<and>
   (150 :: real) = real_of_int (104857600 + 52428800) / (1024 * 1024)"
proof -
  have h: "(''A-META'', \<lparr>ds_size = 150,
       ds_objects = [BUCKET_BASE @ ''/A-META-1.ndjson'', BUCKET_BASE @ ''/A-META-2.ndjson'']\<rparr>)
     \<in> set (group_datasets scenario_objects)"
    by (simp add: scenario_groups)
  show ?thesis
    using h dataset_size_in_megabytes[OF h] by simp
qed

text \<open>
  C4. The path \<open>foo/bar.ndjson\<close> does not contain the marker. \<open>find\<close> returns \<open>-1\<close>, the
  slice bound is 3, and the name \<open>foo\<close> derived from the path is a key of the result:
  names derived from marker-less paths are not excluded.
\<close>

theorem markerless_name_is_kept:
  "relative_paths stray_objects = [''foo/bar.ndjson''] \<and>
   \<not> str_in ''META'' ''foo/bar.ndjson'' \<and>
   str_find ''foo/bar.ndjson'' ''META'' = - 1 \<and>
   project_name ''foo/bar.ndjson'' = ''foo'' \<and>
   map fst (group_datasets stray_objects) = [''foo'']"
  by (simp add: group_datasets_def projects_of_def relative_paths_def project_name_def
      slice_to_def stray_objects_def BUCKET_BASE_def str_replace_def)

section \<open>Traces: facts\<close>

lemma probed_append: "probed (tr @ tr') = probed tr @ probed tr'"
  by (induction tr rule: probed.induct) auto

lemma posted_append: "posted (tr @ tr') = posted tr @ posted tr'"
  by (induction tr rule: posted.induct) auto

lemma polled_append: "polled (tr @ tr') = polled tr @ polled tr'"
  by (induction tr rule: polled.induct) auto

lemma polled_prints: "polled (map (\<lambda>x. Print (f x)) xs) = []"
  by (induction xs) auto

lemma posted_prints: "posted (map (\<lambda>x. Print (f x)) xs) = []"
  by (induction xs) auto

section \<open>Checking the resource URLs: facts\<close>

lemma validate_urls_valid:
  "fst (validate_urls head urls acc) = acc @ filter (\<lambda>url. probe_passes (head url)) urls"
  by (induction urls arbitrary: acc)
     (auto simp: probe_passes_def case_prod_beta split: sum.splits)

lemma validate_urls_probed: "probed (snd (validate_urls head urls acc)) = urls"
  by (induction urls arbitrary: acc) (auto simp: case_prod_beta split: sum.splits)

lemma validate_urls_polled: "polled (snd (validate_urls head urls acc)) = []"
  by (induction urls arbitrary: acc) (auto simp: case_prod_beta split: sum.splits)

lemma validate_urls_posted: "posted (snd (validate_urls head urls acc)) = []"
  by (induction urls arbitrary: acc) (auto simp: case_prod_beta split: sum.splits)

text \<open>
  C6. The URLs that the validation loop keeps are exactly the input URLs whose probe
  passes, in input order; and every input URL is probed, in input order, whatever
  happened to the URLs before it.
\<close>

theorem validator_keeps_exactly_passing_urls:
  "fst (validate_urls head urls []) = filter (\<lambda>url. probe_passes (head url)) urls \<and>
   probed (snd (validate_urls head urls [])) = urls"
  by (simp add: validate_urls_valid validate_urls_probed)

section \<open>Polling: what the trace holds\<close>

lemma scan_issues_polled: "polled (snd (scan_issues items ok)) = []"
  by (induction items arbitrary: ok) (auto simp: case_prod_beta split: sum.splits)

lemma finish_outcome_polled: "polled (snd (finish_outcome loads dataset_name status_data issues ok)) = []"
  by (simp add: finish_outcome_def split: sum.splits bool.splits)

lemma handle_outcome_polled: "polled (snd (handle_outcome loads dataset_name status_data)) = []"
proof -
  have a: "\<And>items r tr. scan_issues items True = (r, tr) \<Longrightarrow> polled tr = []"
    using scan_issues_polled by (metis snd_conv)
  have b: "\<And>issues ok e tr.
      finish_outcome loads dataset_name status_data issues ok = (e, tr) \<Longrightarrow> polled tr = []"
    using finish_outcome_polled by (metis snd_conv)
  show ?thesis
    by (auto simp: handle_outcome_def polled_append split: sum.splits prod.splits dest: a b)
qed

lemma poll_once_polled: "polled (snd (poll_once loads dataset_name answer)) = []"
  by (simp add: poll_once_def case_prod_beta handle_outcome_polled split: sum.splits bool.splits)

lemma poll_starts_with_get:
  "\<exists>tr. snd (poll_import_status loads dataset_name status_url answers) = HttpGet status_url # tr"
  by (cases answers) (auto simp: case_prod_beta split: prod.splits step.splits)

lemma poll_polls_status_url:
  "set (polled (snd (poll_import_status loads dataset_name status_url answers))) = {status_url}"
proof (induction answers)
  case Nil
  then show ?case by simp
next
  case (Cons answer answers)
  obtain st tr where once: "poll_once loads dataset_name answer = (st, tr)"
    by (cases "poll_once loads dataset_name answer")
  have no_get: "polled tr = []"
    using poll_once_polled[of loads dataset_name answer] once by simp
  show ?case
    using Cons once no_get
    by (cases st) (simp_all add: polled_append case_prod_beta)
qed

section \<open>Submitting an import: facts\<close>

lemma submit_import_rejected:
  assumes "fst (validate_urls (http_head w) (filter (\<lambda>url. endswith url ''.ndjson'') urls) []) = valid_urls"
    and "valid_urls \<noteq> []"
    and "http_post w (map (\<lambda>url. (resource_type url, url)) valid_urls) = Inr resp"
    and "content_location resp = None"
  shows "submit_import w dataset_name urls =
     (Some (Inl (SystemExit 1)),
      (Print (MsgImporting dataset_name (length (filter (\<lambda>url. endswith url ''.ndjson'') urls)))
         # snd (validate_urls (http_head w) (filter (\<lambda>url. endswith url ''.ndjson'') urls) []))
      @ map (\<lambda>url. Print (MsgAdding (resource_type url) url)) valid_urls
      @ [HttpPost (map (\<lambda>url. (resource_type url, url)) valid_urls),
         Print (MsgSubmitFailed dataset_name (status_code resp)),
         Print (MsgResponseText (resp_text resp))])"
proof -
  have "filter (\<lambda>url. endswith url ''.ndjson'') urls \<noteq> []"
    using assms(1,2) by auto
  then show ?thesis
    using assms by (simp add: submit_import_def Let_def case_prod_beta)
qed

lemma submit_import_accepted:
  assumes "fst (validate_urls (http_head w) (filter (\<lambda>url. endswith url ''.ndjson'') urls) []) = valid_urls"
    and "valid_urls \<noteq> []"
    and "http_post w (map (\<lambda>url. (resource_type url, url)) valid_urls) = Inr resp"
    and "content_location resp = Some status_url"
  shows "submit_import w dataset_name urls =
     (map_option Inl
        (fst (poll_import_status (json_loads w) dataset_name status_url (http_get w status_url))),
      ((Print (MsgImporting dataset_name (length (filter (\<lambda>url. endswith url ''.ndjson'') urls)))
         # snd (validate_urls (http_head w) (filter (\<lambda>url. endswith url ''.ndjson'') urls) []))
       @ map (\<lambda>url. Print (MsgAdding (resource_type url) url)) valid_urls
       @ [HttpPost (map (\<lambda>url. (resource_type url, url)) valid_urls),
          Print (MsgSubmitted dataset_name status_url)])
      @ snd (poll_import_status (json_loads w) dataset_name status_url (http_get w status_url)))"
proof -
  have "filter (\<lambda>url. endswith url ''.ndjson'') urls \<noteq> []"
    using assms(1,2) by auto
  then show ?thesis
    using assms by (simp add: submit_import_def Let_def case_prod_beta)
qed

lemma import_loop_halts:
  "selected a dataset \<Longrightarrow> submit_import w dataset (ds_objects info) = (Some (Inl e), tr) \<Longrightarrow>
   import_loop w a ((dataset, info) # rest) = (Some (Inl e), tr)"
  by simp

text \<open>
  C8. When no candidate URL ends in \<open>.ndjson\<close>, \<open>submit_import\<close> prints that there is
  nothing to import and returns: the trace holds that one line, so no probe, no
  submission and no poll is sent, and the result is a plain return, not an error.
\<close>

theorem no_submission_without_candidates:
  "filter (\<lambda>url. endswith url ''.ndjson'') urls = [] \<Longrightarrow>
   submit_import w dataset_name urls = (Some (Inr ()), [Print (MsgNoResources dataset_name)]) \<and>
   posted (snd (submit_import w dataset_name urls)) = []"
  by (simp add: submit_import_def)

theorem no_submission_without_candidates_witness:
  "filter (\<lambda>url. endswith url ''.ndjson'') [''notes.txt'', ''Patient.json''] = [] \<and>
   submit_import (demo_world []) ''A-META'' [''notes.txt'', ''Patient.json'']
     = (Some (Inr ()), [Print (MsgNoResources ''A-META'')]) \<and>
   posted (snd (submit_import (demo_world []) ''A-META'' [''notes.txt'', ''Patient.json''])) = []"
proof -
  have h: "filter (\<lambda>url. endswith url ''.ndjson'') [''notes.txt'', ''Patient.json''] = []"
    by (simp add: endswith_def)
  show ?thesis
    using h no_submission_without_candidates[OF h, of "demo_world []" "''A-META''"] by simp
qed

text \<open>
  C5. Take a submission that is sent: some candidate URL passed the checks and the
  \<open>POST\<close> returned a response. If the response has no \<open>Content-Location\<close> header, the
  process ends with \<open>sys.exit(1)\<close>, no \<open>GET\<close> of any status URL is in the trace, and the
  loop over the datasets ends there with the same result, whatever datasets remain. If
  the header is there, the poller runs on its value: after the \<open>POST\<close> the next request
  is a \<open>GET\<close> of that location, and no other URL is polled.
\<close>

theorem missing_status_location_halts_run:
  assumes "fst (validate_urls (http_head w) (filter (\<lambda>url. endswith url ''.ndjson'') urls) []) = valid_urls"
    and "valid_urls \<noteq> []"
    and "http_post w (map (\<lambda>url. (resource_type url, url)) valid_urls) = Inr resp"
  shows "(content_location resp = None \<longrightarrow>
            fst (submit_import w dataset_name urls) = Some (Inl (SystemExit 1)) \<and>
            polled (snd (submit_import w dataset_name urls)) = [] \<and>
            (\<forall>a (info :: dataset_info) rest. selected a dataset_name \<and> ds_objects info = urls \<longrightarrow>
               import_loop w a ((dataset_name, info) # rest) = submit_import w dataset_name urls)) \<and>
         (\<forall>status_url. content_location resp = Some status_url \<longrightarrow>
            fst (submit_import w dataset_name urls) =
              map_option Inl
                (fst (poll_import_status (json_loads w) dataset_name status_url (http_get w status_url))) \<and>
            (\<exists>before after.
               snd (submit_import w dataset_name urls) = before @ HttpGet status_url # after \<and>
               polled before = [] \<and>
               posted before = [map (\<lambda>url. (resource_type url, url)) valid_urls]) \<and>
            set (polled (snd (submit_import w dataset_name urls))) = {status_url})"
proof (intro conjI impI allI)
  assume none: "content_location resp = None"
  note r = submit_import_rejected[OF assms none, of dataset_name]
  show "fst (submit_import w dataset_name urls) = Some (Inl (SystemExit 1))"
    by (simp add: r)
  show "polled (snd (submit_import w dataset_name urls)) = []"
    by (simp add: r polled_append validate_urls_polled polled_prints)
  fix a and info :: dataset_info and rest
  assume "selected a dataset_name \<and> ds_objects info = urls"
  then show "import_loop w a ((dataset_name, info) # rest) = submit_import w dataset_name urls"
    using import_loop_halts[of a dataset_name w info] r by simp
next
  fix status_url
  assume some: "content_location resp = Some status_url"
  note r = submit_import_accepted[OF assms some, of dataset_name]
  let ?poll = "poll_import_status (json_loads w) dataset_name status_url (http_get w status_url)"
  let ?before = "(Print (MsgImporting dataset_name (length (filter (\<lambda>url. endswith url ''.ndjson'') urls)))
         # snd (validate_urls (http_head w) (filter (\<lambda>url. endswith url ''.ndjson'') urls) []))
       @ map (\<lambda>url. Print (MsgAdding (resource_type url) url)) valid_urls
       @ [HttpPost (map (\<lambda>url. (resource_type url, url)) valid_urls),
          Print (MsgSubmitted dataset_name status_url)]"
  show "fst (submit_import w dataset_name urls) = map_option Inl (fst ?poll)"
    by (simp add: r)
  obtain after where after: "snd ?poll = HttpGet status_url # after"
    using poll_starts_with_get by blast
  have b1: "polled ?before = []"
    by (simp add: polled_append validate_urls_polled polled_prints)
  have b2: "posted ?before = [map (\<lambda>url. (resource_type url, url)) valid_urls]"
    by (simp add: posted_append validate_urls_posted posted_prints)
  have "snd (submit_import w dataset_name urls) = ?before @ HttpGet status_url # after"
    using after by (simp add: r)
  with b1 b2 show "\<exists>before after.
               snd (submit_import w dataset_name urls) = before @ HttpGet status_url # after \<and>
               polled before = [] \<and>
               posted before = [map (\<lambda>url. (resource_type url, url)) valid_urls]"
    by blast
  have "polled (snd (submit_import w dataset_name urls)) = polled (snd ?poll)"
    using b1 by (simp add: r polled_append)
  then show "set (polled (snd (submit_import w dataset_name urls))) = {status_url}"
    by (simp add: poll_polls_status_url)
qed

theorem missing_status_location_halts_run_witness:
  "fst (submit_import rejecting_world ''A-META'' [''a/Patient.ndjson'']) = Some (Inl (SystemExit 1)) \<and>
   polled (snd (submit_import rejecting_world ''A-META'' [''a/Patient.ndjson''])) = [] \<and>
   import_loop rejecting_world import_all
     [(''A-META'', \<lparr>ds_size = 0, ds_objects = [''a/Patient.ndjson'']\<rparr>),
      (''B-META'', \<lparr>ds_size = 0, ds_objects = [''b/Patient.ndjson'']\<rparr>)]
     = submit_import rejecting_world ''A-META'' [''a/Patient.ndjson''] \<and>
   set (polled (snd (submit_import (demo_world []) ''A-META'' [''a/Patient.ndjson'']))) = {''job''}"
proof -
  have f: "filter (\<lambda>url. endswith url ''.ndjson'') [''a/Patient.ndjson''] = [''a/Patient.ndjson'']"
    by (simp add: endswith_def)
  have v1: "fst (validate_urls (http_head rejecting_world)
               (filter (\<lambda>url. endswith url ''.ndjson'') [''a/Patient.ndjson'']) []) = [''a/Patient.ndjson'']"
    unfolding f
    by (simp add: rejecting_world_def demo_world_def json_response_def header_or_empty_def)
  have v2: "fst (validate_urls (http_head (demo_world []))
               (filter (\<lambda>url. endswith url ''.ndjson'') [''a/Patient.ndjson'']) []) = [''a/Patient.ndjson'']"
    unfolding f
    by (simp add: demo_world_def json_response_def header_or_empty_def)
  have n: "[''a/Patient.ndjson''] \<noteq> []"
    by simp
  have p1: "http_post rejecting_world (map (\<lambda>url. (resource_type url, url)) [''a/Patient.ndjson''])
              = Inr (json_response 400 None JNull)"
    by (simp add: rejecting_world_def)
  have p2: "http_post (demo_world []) (map (\<lambda>url. (resource_type url, url)) [''a/Patient.ndjson''])
              = Inr (json_response 202 (Some ''job'') JNull)"
    by (simp add: demo_world_def)
  have c1: "content_location (json_response 400 None JNull) = None"
    by (simp add: json_response_def)
  have c2: "content_location (json_response 202 (Some ''job'') JNull) = Some ''job''"
    by (simp add: json_response_def)
  have s: "selected import_all ''A-META''"
    by (simp add: selected_def import_all_def)
  have sel: "selected import_all ''A-META'' \<and>
      ds_objects \<lparr>ds_size = 0, ds_objects = [''a/Patient.ndjson'']\<rparr> = [''a/Patient.ndjson'']"
    using s by simp
  from missing_status_location_halts_run[OF v1 n p1, of "''A-META''"] c1
  have rejected:
    "fst (submit_import rejecting_world ''A-META'' [''a/Patient.ndjson'']) = Some (Inl (SystemExit 1)) \<and>
     polled (snd (submit_import rejecting_world ''A-META'' [''a/Patient.ndjson''])) = [] \<and>
     (\<forall>a (info :: dataset_info) rest.
        selected a ''A-META'' \<and> ds_objects info = [''a/Patient.ndjson''] \<longrightarrow>
        import_loop rejecting_world a ((''A-META'', info) # rest)
          = submit_import rejecting_world ''A-META'' [''a/Patient.ndjson''])"
    by blast
  from rejected
  have a: "fst (submit_import rejecting_world ''A-META'' [''a/Patient.ndjson'']) = Some (Inl (SystemExit 1))"
    and b: "polled (snd (submit_import rejecting_world ''A-META'' [''a/Patient.ndjson''])) = []"
    by blast+
  from rejected sel
  have c: "import_loop rejecting_world import_all
     [(''A-META'', \<lparr>ds_size = 0, ds_objects = [''a/Patient.ndjson'']\<rparr>),
      (''B-META'', \<lparr>ds_size = 0, ds_objects = [''b/Patient.ndjson'']\<rparr>)]
     = submit_import rejecting_world ''A-META'' [''a/Patient.ndjson'']"
    by blast
  from missing_status_location_halts_run[OF v2 n p2, of "''A-META''"] c2
  have d: "set (polled (snd (submit_import (demo_world []) ''A-META'' [''a/Patient.ndjson'']))) = {''job''}"
    by blast
  from a b c d show ?thesis by blast
qed

section \<open>Polling: facts\<close>

lemma scan_issues_plain:
  "list_all plain_issue issues \<Longrightarrow>
   scan_issues issues ok =
     (Inr (ok \<and> list_all (\<lambda>i. \<not> is_error i) issues), map issue_line issues)"
proof (induction issues arbitrary: ok)
  case Nil
  then show ?case by simp
next
  case (Cons issue issues)
  from Cons.prems obtain kvs where kvs: "issue = JObj kvs"
    by (cases issue) auto
  from Cons.prems kvs
  have d: "map_of kvs ''details'' = None \<or> (\<exists>d. map_of kvs ''details'' = Some (JObj d))"
    by (auto split: option.splits json.splits)
  have rest: "list_all plain_issue issues"
    using Cons.prems by simp
  show ?case
    using d Cons.IH[OF rest] kvs
    by (auto simp: is_error_def issue_line_def split: option.splits)
qed

lemma finish_outcome_failed:
  "finish_outcome loads dataset_name status_data issues False =
     (SystemExit 0, [Print (MsgDump status_data), Print (MsgImportFailed dataset_name)])"
  by (simp add: finish_outcome_def)

lemma has_report_many: "length issues \<noteq> 1 \<Longrightarrow> has_report (JArr issues) = Inr False"
  by (simp add: has_report_def)

lemma finish_outcome_completed:
  assumes "list_all plain_issue issues" and "report_ready loads issues"
  shows "\<exists>line. finish_outcome loads dataset_name status_data (JArr issues) True =
           (SystemExit 0, [Print line, Print (MsgImportCompleted dataset_name)])"
proof (cases "length issues = 1")
  case False
  then show ?thesis
    by (simp add: finish_outcome_def has_report_many)
next
  case True
  then obtain issue where one: "issues = [issue]"
    by (cases issues) auto
  with assms(1) obtain kvs where kvs: "issue = JObj kvs"
    by (cases issue) auto
  show ?thesis
  proof (cases "map_of kvs ''severity'' = Some (JStr ''information'')")
    case False
    then show ?thesis
      by (auto simp: finish_outcome_def has_report_def one kvs split: option.splits)
  next
    case info: True
    show ?thesis
    proof (cases "map_of kvs ''diagnostics''")
      case None
      then show ?thesis
        using info by (simp add: finish_outcome_def has_report_def one kvs)
    next
      case (Some v)
      with assms(2) info obtain s where s: "v = JStr s"
        by (cases v) (auto simp: one kvs)
      show ?thesis
      proof (cases "str_in ''reportMsg'' s")
        case False
        then show ?thesis
          using info Some s by (simp add: finish_outcome_def has_report_def one kvs)
      next
        case True
        with assms(2) info Some s obtain r v' where
          "loads s = Inr (JObj r)" "map_of r ''reportMsg'' = Some v'"
          by (auto simp: one kvs split: sum.splits json.splits)
        then show ?thesis
          using info Some s True
          by (simp add: finish_outcome_def has_report_def extract_report_def one kvs)
      qed
    qed
  qed
qed

lemma handle_outcome_plain:
  assumes "(case map_of kvs ''issue'' of None \<Rightarrow> JArr [] | Some v \<Rightarrow> v) = JArr issues"
    and "list_all plain_issue issues"
  shows "handle_outcome loads dataset_name (JObj kvs) =
     (fst (finish_outcome loads dataset_name (JObj kvs) (JArr issues)
             (list_all (\<lambda>i. \<not> is_error i) issues)),
      map issue_line issues
        @ snd (finish_outcome loads dataset_name (JObj kvs) (JArr issues)
                 (list_all (\<lambda>i. \<not> is_error i) issues)))"
  using assms
  by (simp add: handle_outcome_def scan_issues_plain case_prod_beta)

lemma poll_once_terminal:
  assumes "terminal_outcome resp kvs issues"
  shows "poll_once loads dataset_name (Inr resp) =
     (Stop (fst (handle_outcome loads dataset_name (JObj kvs))),
      snd (handle_outcome loads dataset_name (JObj kvs)))"
  using assms
  by (simp add: terminal_outcome_def poll_once_def is_operation_outcome_def case_prod_beta)

lemma poll_once_in_progress:
  assumes "in_progress answer"
  shows "\<exists>body. poll_once loads dataset_name answer =
           (Continue, [Print (MsgInProgress dataset_name body), Sleep POLL_INTERVAL])"
  using assms
  by (auto simp: in_progress_def poll_once_def split: sum.splits)

lemma poll_after_pending:
  assumes "list_all in_progress pending" and "\<And>d body. m \<noteq> MsgInProgress d body"
  shows "fst (poll_import_status loads dataset_name status_url (pending @ rest)) =
           fst (poll_import_status loads dataset_name status_url rest) \<and>
         (Print m \<in> set (snd (poll_import_status loads dataset_name status_url (pending @ rest)))
            \<longleftrightarrow> Print m \<in> set (snd (poll_import_status loads dataset_name status_url rest)))"
  using assms(1)
proof (induction pending)
  case Nil
  then show ?case by simp
next
  case (Cons answer pending)
  then have "in_progress answer" and rest: "list_all in_progress pending"
    by simp_all
  then obtain body where
    once: "poll_once loads dataset_name answer =
             (Continue, [Print (MsgInProgress dataset_name body), Sleep POLL_INTERVAL])"
    using poll_once_in_progress by blast
  show ?case
    using Cons.IH[OF rest] once assms(2)
    by (simp add: case_prod_beta)
qed

lemma poll_terminal:
  assumes "list_all in_progress pending"
    and "terminal_outcome resp kvs issues"
    and "list_all plain_issue issues"
    and "\<And>d body. m \<noteq> MsgInProgress d body"
  shows "fst (poll_import_status loads dataset_name status_url (pending @ Inr resp # later)) =
           Some (fst (finish_outcome loads dataset_name (JObj kvs) (JArr issues)
                        (list_all (\<lambda>i. \<not> is_error i) issues)))"
    and "Print m \<in> set (snd (poll_import_status loads dataset_name status_url (pending @ Inr resp # later)))
           \<longleftrightarrow> Print m \<in> set (map issue_line issues) \<or>
               Print m \<in> set (snd (finish_outcome loads dataset_name (JObj kvs) (JArr issues)
                                       (list_all (\<lambda>i. \<not> is_error i) issues)))"
proof -
  have issues: "(case map_of kvs ''issue'' of None \<Rightarrow> JArr [] | Some v \<Rightarrow> v) = JArr issues"
    using assms(2) by (simp add: terminal_outcome_def)
  have final: "poll_import_status loads dataset_name status_url (Inr resp # later) =
     (Some (fst (finish_outcome loads dataset_name (JObj kvs) (JArr issues)
                   (list_all (\<lambda>i. \<not> is_error i) issues))),
      HttpGet status_url # map issue_line issues
        @ snd (finish_outcome loads dataset_name (JObj kvs) (JArr issues)
                 (list_all (\<lambda>i. \<not> is_error i) issues)))"
    by (simp add: poll_once_terminal[OF assms(2)] handle_outcome_plain[OF issues assms(3)])
  note skip = poll_after_pending[OF assms(1) assms(4), of loads dataset_name status_url "Inr resp # later",
      unfolded final]
  show "fst (poll_import_status loads dataset_name status_url (pending @ Inr resp # later)) =
           Some (fst (finish_outcome loads dataset_name (JObj kvs) (JArr issues)
                        (list_all (\<lambda>i. \<not> is_error i) issues)))"
    using skip by simp
  show "Print m \<in> set (snd (poll_import_status loads dataset_name status_url (pending @ Inr resp # later)))
           \<longleftrightarrow> Print m \<in> set (map issue_line issues) \<or>
               Print m \<in> set (snd (finish_outcome loads dataset_name (JObj kvs) (JArr issues)
                                       (list_all (\<lambda>i. \<not> is_error i) issues)))"
    using skip by simp
qed

lemma issue_line_not_verdict:
  "Print (MsgImportCompleted d) \<notin> issue_line ` set issues"
  "Print (MsgImportFailed d) \<notin> issue_line ` set issues"
  by (auto simp: issue_line_def)

lemma known_severity_below:
  "list_all known_severity issues \<Longrightarrow>
   list_all (\<lambda>i. \<not> is_error i) issues = list_all below_error issues"
  by (induction issues) (auto simp: known_severity_def below_error_def is_error_def)

lemma poll_verdict:
  assumes "list_all in_progress pending"
    and "terminal_outcome resp kvs issues"
    and "list_all plain_issue issues"
    and "report_ready loads issues"
  shows "fst (poll_import_status loads dataset_name status_url (pending @ Inr resp # later))
           = Some (SystemExit 0)"
    and "Print (MsgImportCompleted dataset_name)
           \<in> set (snd (poll_import_status loads dataset_name status_url (pending @ Inr resp # later)))
         \<longleftrightarrow> list_all (\<lambda>i. \<not> is_error i) issues"
    and "Print (MsgImportFailed dataset_name)
           \<in> set (snd (poll_import_status loads dataset_name status_url (pending @ Inr resp # later)))
         \<longleftrightarrow> \<not> list_all (\<lambda>i. \<not> is_error i) issues"
proof -
  obtain line where compl:
    "finish_outcome loads dataset_name (JObj kvs) (JArr issues) True =
       (SystemExit 0, [Print line, Print (MsgImportCompleted dataset_name)])"
    using finish_outcome_completed[OF assms(3,4)] by blast
  have fin: "finish_outcome loads dataset_name (JObj kvs) (JArr issues)
               (list_all (\<lambda>i. \<not> is_error i) issues) =
     (if list_all (\<lambda>i. \<not> is_error i) issues
      then (SystemExit 0, [Print line, Print (MsgImportCompleted dataset_name)])
      else (SystemExit 0, [Print (MsgDump (JObj kvs)), Print (MsgImportFailed dataset_name)]))"
    using compl by (simp add: finish_outcome_failed)
  have line: "line \<noteq> MsgImportFailed dataset_name"
    using compl by (auto simp: finish_outcome_def split: sum.splits bool.splits)
  show "fst (poll_import_status loads dataset_name status_url (pending @ Inr resp # later))
           = Some (SystemExit 0)"
    using poll_terminal(1)[OF assms(1,2,3), where m = "MsgImportCompleted dataset_name" and loads = loads
        and dataset_name = dataset_name and status_url = status_url and later = later]
    by (simp add: fin)
  show "Print (MsgImportCompleted dataset_name)
           \<in> set (snd (poll_import_status loads dataset_name status_url (pending @ Inr resp # later)))
         \<longleftrightarrow> list_all (\<lambda>i. \<not> is_error i) issues"
    using poll_terminal(2)[OF assms(1,2,3), where m = "MsgImportCompleted dataset_name" and loads = loads
        and dataset_name = dataset_name and status_url = status_url and later = later]
    by (simp add: fin issue_line_not_verdict)
  show "Print (MsgImportFailed dataset_name)
           \<in> set (snd (poll_import_status loads dataset_name status_url (pending @ Inr resp # later)))
         \<longleftrightarrow> \<not> list_all (\<lambda>i. \<not> is_error i) issues"
    using poll_terminal(2)[OF assms(1,2,3), where m = "MsgImportFailed dataset_name" and loads = loads
        and dataset_name = dataset_name and status_url = status_url and later = later] line
    by (simp add: fin issue_line_not_verdict)
qed


lemma finish_outcome_sound:
  "Print (MsgImportFailed d) \<notin> set (snd (finish_outcome loads dataset_name status_data issues True))"
  "Print (MsgImportCompleted d) \<notin> set (snd (finish_outcome loads dataset_name status_data issues False))"
  by (auto simp: finish_outcome_def split: sum.splits bool.splits)

lemma poll_failed_iff:
  assumes "list_all in_progress pending"
    and "terminal_outcome resp kvs issues"
    and "list_all plain_issue issues"
  shows "Print (MsgImportFailed dataset_name)
           \<in> set (snd (poll_import_status loads dataset_name status_url (pending @ Inr resp # later)))
         \<longleftrightarrow> \<not> list_all (\<lambda>i. \<not> is_error i) issues"
  using poll_terminal(2)[OF assms(1,2,3), where m = "MsgImportFailed dataset_name" and loads = loads
        and dataset_name = dataset_name and status_url = status_url and later = later]
    finish_outcome_sound(1)[of dataset_name loads dataset_name "JObj kvs" "JArr issues"]
  by (cases "list_all (\<lambda>i. \<not> is_error i) issues")
     (simp_all add: issue_line_not_verdict finish_outcome_failed)

lemma poll_completed_only_if:
  assumes "list_all in_progress pending"
    and "terminal_outcome resp kvs issues"
    and "list_all plain_issue issues"
    and "Print (MsgImportCompleted dataset_name)
           \<in> set (snd (poll_import_status loads dataset_name status_url (pending @ Inr resp # later)))"
  shows "list_all (\<lambda>i. \<not> is_error i) issues"
  using poll_terminal(2)[OF assms(1,2,3), where m = "MsgImportCompleted dataset_name" and loads = loads
        and dataset_name = dataset_name and status_url = status_url and later = later]
    assms(4)
  by (cases "list_all (\<lambda>i. \<not> is_error i) issues")
     (simp_all add: issue_line_not_verdict finish_outcome_failed)

text \<open>
  Let the server answer that the job is in progress any number of times and then send a
  terminal \<open>OperationOutcome\<close> whose issues are FHIR issues (\<open>plain_issue\<close>) with the
  severities \<open>information\<close>, \<open>warning\<close> or \<open>error\<close>. The poller announces that the import
  failed if and only if some issue is not below \<open>error\<close>; it announces that the import
  completed only if every issue is below \<open>error\<close>; and when the embedded report that it
  unwraps is there (\<open>report_ready\<close>), it announces that the import completed if and only
  if every issue is below \<open>error\<close>.
\<close>

lemma verdict_for_known_severities:
  assumes "list_all in_progress pending"
    and "terminal_outcome resp kvs issues"
    and "list_all plain_issue issues"
    and "list_all known_severity issues"
  shows "(Print (MsgImportFailed dataset_name)
            \<in> set (snd (poll_import_status loads dataset_name status_url (pending @ Inr resp # later)))
          \<longleftrightarrow> \<not> list_all below_error issues) \<and>
         (Print (MsgImportCompleted dataset_name)
            \<in> set (snd (poll_import_status loads dataset_name status_url (pending @ Inr resp # later)))
          \<longrightarrow> list_all below_error issues) \<and>
         (report_ready loads issues \<longrightarrow>
            (Print (MsgImportCompleted dataset_name)
               \<in> set (snd (poll_import_status loads dataset_name status_url (pending @ Inr resp # later)))
             \<longleftrightarrow> list_all below_error issues))"
  using poll_failed_iff[OF assms(1,2,3), of dataset_name loads status_url later]
    poll_completed_only_if[OF assms(1,2,3), of dataset_name loads status_url later]
    poll_verdict(2)[OF assms(1,2,3), of loads dataset_name status_url later]
    known_severity_below[OF assms(4)]
  by blast



text \<open>
  C1. After two answers that the job is in progress the server sends a terminal
  \<open>OperationOutcome\<close> with the single issue \<open>unparsed_issue\<close>: its severity is
  \<open>information\<close>, so every issue is below \<open>error\<close>, and its \<open>diagnostics\<close> is the text
  \<open>reportMsg: done\<close>. The poller prints the issue, takes the branch of a job without
  errors and calls \<open>json.loads\<close> on the text at line 243, which raises
  \<open>JSONDecodeError\<close>: the process ends with the exit status of an uncaught exception and
  the import is never announced as completed. With the issue \<open>report_issue\<close>, whose
  \<open>diagnostics\<close> is the JSON text of a report, the same run announces that the import
  completed.
\<close>

theorem unparsed_report_ends_without_verdict:
  "list_all below_error [unparsed_issue] \<and>
   report_parser ''reportMsg: done'' = Inl JSONDecodeError \<and>
   poll_import_status report_parser ''A-META'' ''job''
     (two_pending @ [Inr (json_response 200 None (outcome_with [unparsed_issue]))]) =
   (Some (Raised JSONDecodeError),
    [HttpGet ''job'', Print (MsgInProgress ''A-META'' JNull), Sleep 10,
     HttpGet ''job'', Print (MsgInProgress ''A-META'' JNull), Sleep 10,
     HttpGet ''job'', Print (MsgIssue (JStr ''information'') (JStr ''''))]) \<and>
   Print (MsgImportCompleted ''A-META'')
     \<notin> set (snd (poll_import_status report_parser ''A-META'' ''job''
                   (two_pending @ [Inr (json_response 200 None (outcome_with [unparsed_issue]))]))) \<and>
   exit_status (Inl (Raised JSONDecodeError)) = 1 \<and>
   poll_import_status report_parser ''A-META'' ''job''
     (two_pending @ [Inr (json_response 200 None (outcome_with [report_issue]))]) =
   (Some (SystemExit 0),
    [HttpGet ''job'', Print (MsgInProgress ''A-META'' JNull), Sleep 10,
     HttpGet ''job'', Print (MsgInProgress ''A-META'' JNull), Sleep 10,
     HttpGet ''job'', Print (MsgIssue (JStr ''information'') (JStr '''')),
     Print (MsgReport ''A-META'' (JStr ''done'')), Print (MsgImportCompleted ''A-META'')])"
  by code_simp

section \<open>The whole run\<close>

text \<open>
  In any world, a run sends at most one submission: \<open>submit_import\<close> returns to the loop
  only when it sent none, and the poller that follows a submission never returns.
\<close>

lemma scan_issues_posted: "posted (snd (scan_issues items ok)) = []"
  by (induction items arbitrary: ok) (auto simp: case_prod_beta split: sum.splits)

lemma finish_outcome_posted: "posted (snd (finish_outcome loads dataset_name status_data issues ok)) = []"
  by (simp add: finish_outcome_def split: sum.splits bool.splits)

lemma handle_outcome_posted: "posted (snd (handle_outcome loads dataset_name status_data)) = []"
proof -
  have a: "\<And>items r tr. scan_issues items True = (r, tr) \<Longrightarrow> posted tr = []"
    using scan_issues_posted by (metis snd_conv)
  have b: "\<And>issues ok e tr.
      finish_outcome loads dataset_name status_data issues ok = (e, tr) \<Longrightarrow> posted tr = []"
    using finish_outcome_posted by (metis snd_conv)
  show ?thesis
    by (auto simp: handle_outcome_def posted_append split: sum.splits prod.splits dest: a b)
qed

lemma poll_once_posted: "posted (snd (poll_once loads dataset_name answer)) = []"
  by (simp add: poll_once_def case_prod_beta handle_outcome_posted split: sum.splits bool.splits)

lemma poll_posted: "posted (snd (poll_import_status loads dataset_name status_url answers)) = []"
proof (induction answers)
  case Nil
  then show ?case by simp
next
  case (Cons answer answers)
  obtain st tr where once: "poll_once loads dataset_name answer = (st, tr)"
    by (cases "poll_once loads dataset_name answer")
  have "posted tr = []"
    using poll_once_posted[of loads dataset_name answer] once by simp
  then show ?case
    using Cons once by (cases st) (simp_all add: posted_append case_prod_beta)
qed

lemma submit_import_posts:
  "length (posted (snd (submit_import w dataset_name urls))) \<le> 1 \<and>
   (fst (submit_import w dataset_name urls) = Some (Inr ()) \<longrightarrow>
      posted (snd (submit_import w dataset_name urls)) = [])"
  by (auto simp: submit_import_def Let_def case_prod_beta posted_append validate_urls_posted
      posted_prints poll_posted split: sum.splits option.splits)

lemma import_loop_posts: "length (posted (snd (import_loop w a datasets))) \<le> 1"
proof (induction datasets)
  case Nil
  then show ?case by simp
next
  case (Cons d datasets)
  obtain dataset info where d: "d = (dataset, info)"
    by (cases d)
  obtain r tr where s: "submit_import w dataset (ds_objects info) = (r, tr)"
    by (cases "submit_import w dataset (ds_objects info)")
  have one: "length (posted tr) \<le> 1" and ret: "r = Some (Inr ()) \<longrightarrow> posted tr = []"
    using submit_import_posts[of w dataset "ds_objects info"] s by simp_all
  show ?case
  proof (cases "selected a dataset \<and> r = Some (Inr ())")
    case True
    then show ?thesis
      using Cons ret s d by (simp add: case_prod_beta posted_append)
  next
    case False
    then show ?thesis
      using Cons one s d
      by (cases "selected a dataset"; cases r)
         (auto simp: case_prod_beta split: sum.splits)
  qed
qed

text \<open>
  C3. The job of the first dataset ends with one error and one warning. The poller
  announces the failure and the process ends with \<open>sys.exit(0)\<close>: the exit status is 0,
  the status of a run whose job succeeded.
\<close>

theorem failed_job_exits_with_status_zero:
  "fst (main (demo_world [issue_with ''error'', issue_with ''warning'']) import_all)
     = Some (Inl (SystemExit 0)) \<and>
   Print (MsgImportFailed ''A-META'')
     \<in> set (snd (main (demo_world [issue_with ''error'', issue_with ''warning'']) import_all)) \<and>
   exit_status (Inl (SystemExit 0)) = 0 \<and>
   fst (main (demo_world [issue_with ''information'']) import_all) = Some (Inl (SystemExit 0)) \<and>
   Print (MsgImportCompleted ''A-META'')
     \<in> set (snd (main (demo_world [issue_with ''information'']) import_all))"
  by code_simp

text \<open>
  C2. Two datasets are discovered and both pass the filters. The job of the first one
  completes; \<open>sys.exit(0)\<close> at the end of the poll loop then ends the process, so the only
  submission sent is that of the first dataset and nothing is done for the second.
\<close>

theorem first_finished_job_ends_the_run:
  "map fst (group_datasets two_datasets) = [''A-META'', ''B-META''] \<and>
   selected import_all ''A-META'' \<and> selected import_all ''B-META'' \<and>
   fst (main (demo_world [issue_with ''information'']) import_all) = Some (Inl (SystemExit 0)) \<and>
   Print (MsgImportCompleted ''A-META'')
     \<in> set (snd (main (demo_world [issue_with ''information'']) import_all)) \<and>
   posted (snd (main (demo_world [issue_with ''information'']) import_all))
     = [[(''Patient'', BUCKET_BASE @ ''/A-META/Patient.ndjson'')]] \<and>
   probed (snd (main (demo_world [issue_with ''information'']) import_all))
     = [BUCKET_BASE @ ''/A-META/Patient.ndjson'']"
  by code_simp

end
